theory Spec2Isabelle
  imports Complex_Main "HOL-Library.Word"
begin

unbundle bit_operations_syntax

section \<open>The public interface of libebur128 (ebur128.h)\<close>

text \<open>
  The header declares three enumerations, the state structure and the library's
  functions. The enumerations and the structure are embedded as they are written.
  C's \<^verbatim>\<open>int\<close> mode word is an \<^typ>\<open>int\<close>: only \<^verbatim>\<open>|\<close> and \<^verbatim>\<open>&\<close> are applied to it,
  and these agree with \<open>OR\<close> and \<open>AND\<close> on two's-complement integers of any width.
\<close>

subsection \<open>enum channel\<close>

datatype channel =
    EBUR128_UNUSED
  | EBUR128_LEFT
  | EBUR128_RIGHT
  | EBUR128_CENTER
  | EBUR128_LEFT_SURROUND
  | EBUR128_RIGHT_SURROUND
  | EBUR128_DUAL_MONO

subsection \<open>enum error\<close>

datatype error =
    EBUR128_SUCCESS
  | EBUR128_ERROR_NOMEM
  | EBUR128_ERROR_INVALID_MODE
  | EBUR128_ERROR_INVALID_CHANNEL_INDEX
  | EBUR128_ERROR_NO_CHANGE

subsection \<open>enum mode\<close>

text \<open>
  \<^verbatim>\<open>1 << k\<close> is \<open>push_bit k 1\<close>. The header is compiled with
  \<^verbatim>\<open>EBUR128_USE_SPEEX_RESAMPLER\<close> set to 1 (its default), so
  \<open>EBUR128_MODE_TRUE_PEAK\<close> is a member of the enumeration.
\<close>

definition EBUR128_MODE_M :: int where
  "EBUR128_MODE_M = push_bit 0 1"

definition EBUR128_MODE_S :: int where
  "EBUR128_MODE_S = push_bit 1 1 OR EBUR128_MODE_M"

definition EBUR128_MODE_I :: int where
  "EBUR128_MODE_I = push_bit 2 1 OR EBUR128_MODE_M"

definition EBUR128_MODE_LRA :: int where
  "EBUR128_MODE_LRA = push_bit 3 1 OR EBUR128_MODE_S"

definition EBUR128_MODE_SAMPLE_PEAK :: int where
  "EBUR128_MODE_SAMPLE_PEAK = push_bit 4 1 OR EBUR128_MODE_M"

definition EBUR128_MODE_TRUE_PEAK :: int where
  "EBUR128_MODE_TRUE_PEAK = push_bit 5 1 OR EBUR128_MODE_M"

definition EBUR128_MODE_HISTOGRAM :: int where
  "EBUR128_MODE_HISTOGRAM = push_bit 6 1"

text \<open>The enumerators of \<^verbatim>\<open>enum mode\<close>, in the order of the header.\<close>

definition mode_enum :: "int list" where
  "mode_enum =
     [EBUR128_MODE_M, EBUR128_MODE_S, EBUR128_MODE_I, EBUR128_MODE_LRA,
      EBUR128_MODE_SAMPLE_PEAK, EBUR128_MODE_TRUE_PEAK, EBUR128_MODE_HISTOGRAM]"

text \<open>
  Most enumerators are several bits wide, and a mode word is an or of enumerators
  (``Use these values in ebur128\_init (or'ed)''). An enumerator is set in a mode word
  when all of its bits are: \<^verbatim>\<open>(mode & flag) == flag\<close>.
\<close>

definition mode_set :: "int \<Rightarrow> int \<Rightarrow> bool" where
  "mode_set m flag \<longleftrightarrow> m AND flag = flag"

text \<open>
  The measurement queries, and the enumerator whose comment in the header says
  ``can call'' the query: \<^verbatim>\<open>EBUR128_MODE_M\<close> for \<^verbatim>\<open>ebur128_loudness_momentary\<close>,
  \<^verbatim>\<open>EBUR128_MODE_S\<close> for \<^verbatim>\<open>ebur128_loudness_shortterm\<close>, \<^verbatim>\<open>EBUR128_MODE_I\<close> for the
  gated (integrated) loudness, \<^verbatim>\<open>EBUR128_MODE_LRA\<close> for \<^verbatim>\<open>ebur128_loudness_range\<close>,
  \<^verbatim>\<open>EBUR128_MODE_SAMPLE_PEAK\<close> for \<^verbatim>\<open>ebur128_sample_peak\<close> and
  \<^verbatim>\<open>EBUR128_MODE_TRUE_PEAK\<close> for \<^verbatim>\<open>ebur128_true_peak\<close>.
  \<^verbatim>\<open>EBUR128_MODE_HISTOGRAM\<close> carries no such comment: it ``uses histogram algorithm to
  calculate loudness''.
\<close>

datatype query =
    Loudness_Momentary
  | Loudness_Shortterm
  | Loudness_Global
  | Loudness_Range
  | Sample_Peak
  | True_Peak

fun can_call_flag :: "query \<Rightarrow> int" where
  "can_call_flag Loudness_Momentary = EBUR128_MODE_M"
| "can_call_flag Loudness_Shortterm = EBUR128_MODE_S"
| "can_call_flag Loudness_Global = EBUR128_MODE_I"
| "can_call_flag Loudness_Range = EBUR128_MODE_LRA"
| "can_call_flag Sample_Peak = EBUR128_MODE_SAMPLE_PEAK"
| "can_call_flag True_Peak = EBUR128_MODE_TRUE_PEAK"

definition can_call :: "int \<Rightarrow> query \<Rightarrow> bool" where
  "can_call m q \<longleftrightarrow> mode_set m (can_call_flag q)"

subsection \<open>struct ebur128\_state\<close>

text \<open>
  The header only forward-declares \<^verbatim>\<open>struct ebur128_state_internal\<close>; the public
  structure holds a pointer to it. The internal state is therefore a type parameter
  of the record.
\<close>

record 'i ebur128_state =
  mode :: int
  channels :: nat
  samplerate :: nat
  d :: 'i

section \<open>The streaming engine\<close>

text \<open>
  \<^verbatim>\<open>ebur128.h\<close> declares the library's functions and does not hold their bodies. The
  definitions of this section follow the specification of the engine instead (its data
  model, and its sections on sample ingestion, the K-weighting filter, the block
  accumulator and the gated loudness); each says so, and names the part that it stands
  for. A C \<^verbatim>\<open>double\<close> is the real number it denotes, so rounding, NaN and infinities
  are outside the model. Memory is a parameter: an operation that allocates takes a
  truth value \<open>mem\<close> that says whether the allocator has memory left in the call.
\<close>

subsection \<open>The internal state\<close>

text \<open>
  Modelled from the spec: the coefficients of one biquad section, \<open>b0 b1 b2 a1 a2\<close>
  (\<^verbatim>\<open>filter_coeffs\<close> of the data model holds two of them, the high-shelf and the
  high-pass; the structure is a member of \<^verbatim>\<open>struct ebur128_state_internal\<close>).
\<close>

datatype biquad = Biquad real real real real real

text \<open>
  Modelled from the spec: \<^verbatim>\<open>struct ebur128_state_internal\<close>, the attributes of the
  stream state in the data model that the public structure does not hold.
  \<open>filter_state\<close> has, per channel, two delay elements for each of the two filter stages.
  \<open>audio_buffer\<close> holds, channel after channel, a ring of \<open>3 * samplerate\<close> weighted
  squared samples, and \<open>buffer_head\<close> is the position in each ring that is written
  next. \<open>buffered_frames\<close> counts the frames written to the ring, up to its length: the
  data model has no such attribute, but the rule that a block whose window is not yet
  fully populated is skipped needs the count. \<open>resampler_state\<close> is the memory of the
  oversampler, per channel.
\<close>

record ebur128_state_internal =
  channel_map :: "channel list"
  filter_coeffs :: "biquad \<times> biquad"
  filter_state :: "((real \<times> real) \<times> (real \<times> real)) list"
  audio_buffer :: "real list"
  buffer_head :: nat
  buffered_frames :: nat
  needed_frames :: nat
  block_list_400 :: "real list"
  block_list_3000 :: "real list"
  histogram :: "nat list"
  histogram_lra :: "nat list"
  sample_peak :: "real list"
  true_peak :: "real list"
  resampler_state :: "real list list"

type_synonym state = "ebur128_state_internal ebur128_state"

text \<open>
  The value of a loudness out parameter: \<^verbatim>\<open>-HUGE_VAL\<close>, the header's sentinel for
  negative infinity, or a number.
\<close>

datatype dbl = Minus_HUGE_VAL | Dbl real

subsection \<open>Initialisation\<close>

text \<open>
  The default channel map, as the header documents it for \<^verbatim>\<open>ebur128_set_channel\<close>:
  0 is left, 1 right, 2 centre, 3 unused, 4 left surround, 5 right surround; the
  specification adds that every further channel is unused.
\<close>

fun default_channel :: "nat \<Rightarrow> channel" where
  "default_channel n =
     (if n = 0 then EBUR128_LEFT
      else if n = 1 then EBUR128_RIGHT
      else if n = 2 then EBUR128_CENTER
      else if n = 3 then EBUR128_UNUSED
      else if n = 4 then EBUR128_LEFT_SURROUND
      else if n = 5 then EBUR128_RIGHT_SURROUND
      else EBUR128_UNUSED)"

text \<open>
  Modelled from the spec: \<^verbatim>\<open>ebur128_init\<close>, declared in the header. The new state has
  the default channel map, zeroed filter delay elements, a zeroed ring, no blocks, empty
  histograms of 1000 bins, zero peaks, and \<open>needed_frames\<close> at \<open>samplerate / 10\<close>. The design
  of the filter coefficients for a sample rate (the bilinear transform of the BS.1770
  prototype) is the parameter \<open>design\<close>: the specification names the method and not all of
  its constants. Whether the allocator has memory for the state is the parameter
  \<open>mem\<close>; without it the result is no state (C's null pointer).
\<close>

definition ebur128_init ::
  "bool \<Rightarrow> (nat \<Rightarrow> biquad \<times> biquad) \<Rightarrow> nat \<Rightarrow> nat \<Rightarrow> int \<Rightarrow> state option" where
  "ebur128_init mem design ch sr m =
     (if \<not> mem then None
      else Some
       \<lparr>mode = m, channels = ch, samplerate = sr,
        d = \<lparr>channel_map = map default_channel [0..<ch],
             filter_coeffs = design sr,
             filter_state = replicate ch ((0, 0), (0, 0)),
             audio_buffer = replicate (ch * (3 * sr)) 0,
             buffer_head = 0,
             buffered_frames = 0,
             needed_frames = sr div 10,
             block_list_400 = [],
             block_list_3000 = [],
             histogram = replicate 1000 0,
             histogram_lra = replicate 1000 0,
             sample_peak = replicate ch 0,
             true_peak = replicate ch 0,
             resampler_state = replicate ch []\<rparr>\<rparr>)"

subsection \<open>Sample ingestion and the K-weighting filter\<close>

text \<open>
  Modelled from the spec: the channel weights of the data model (the roles are
  \<^verbatim>\<open>enum channel\<close> of the header, which gives them no weights). Unused counts 0; left,
  right and centre 1.0; the surrounds 1.41; a dual-mono channel is counted twice.
\<close>

fun channel_weight :: "channel \<Rightarrow> real" where
  "channel_weight EBUR128_UNUSED = 0"
| "channel_weight EBUR128_LEFT = 1"
| "channel_weight EBUR128_RIGHT = 1"
| "channel_weight EBUR128_CENTER = 1"
| "channel_weight EBUR128_LEFT_SURROUND = 1.41"
| "channel_weight EBUR128_RIGHT_SURROUND = 1.41"
| "channel_weight EBUR128_DUAL_MONO = 2"

text \<open>
  Modelled from the spec: one step of a biquad section (part of the K-weighting
  filter, which the header does not hold). The specification gives each section two
  delay elements per channel; this is the recurrence on two delay elements. It returns
  the output sample and the new delay elements.
\<close>

fun biquad_step :: "biquad \<Rightarrow> real \<times> real \<Rightarrow> real \<Rightarrow> real \<times> (real \<times> real)" where
  "biquad_step (Biquad b0 b1 b2 a1 a2) (w1, w2) x =
     (let w0 = x - a1 * w1 - a2 * w2 in (b0 * w0 + b1 * w1 + b2 * w2, (w0, w1)))"

text \<open>
  Modelled from the spec: the K-weighting filter of one channel, two cascaded
  biquads (high-shelf, then high-pass), each with its own delay elements.
\<close>

definition k_weighting ::
  "biquad \<times> biquad \<Rightarrow> (real \<times> real) \<times> (real \<times> real) \<Rightarrow> real
     \<Rightarrow> real \<times> ((real \<times> real) \<times> (real \<times> real))" where
  "k_weighting cs s x =
     (let (y1, s1) = biquad_step (fst cs) (fst s) x;
          (y2, s2) = biquad_step (snd cs) (snd s) y1
      in (y2, (s1, s2)))"

text \<open>
  Modelled from the spec: the oversampling ratio of the true-peak detector: 4 below
  96 kHz, 2 below 192 kHz, and 1 (pass-through) from 192 kHz on.
\<close>

definition oversampling_factor :: "nat \<Rightarrow> nat" where
  "oversampling_factor sr = (if sr < 96000 then 4 else if sr < 192000 then 2 else 1)"

text \<open>
  The interpolation filter itself is an external collaborator of the engine (the
  resampler library). It is a parameter of the model: given the ratio, the memory of
  one channel and an input sample, it returns the oversampled values and the new
  memory.
\<close>

type_synonym resampler = "nat \<Rightarrow> real list \<Rightarrow> real \<Rightarrow> real list \<times> real list"

text \<open>
  Modelled from the spec: the true-peak detector's oversampling of one sample of one
  channel, with the pass-through at ratio 1.
\<close>

definition oversample :: "resampler \<Rightarrow> nat \<Rightarrow> real list \<Rightarrow> real \<Rightarrow> real list \<times> real list" where
  "oversample os sr rs x =
     (if oversampling_factor sr = 1 then ([x], rs) else os (oversampling_factor sr) rs x)"

text \<open>
  Modelled from the spec: the ingestion of the sample of channel \<open>c\<close> of a frame (part
  of the bodies of the add-frames functions). With the sample-peak mode the channel's
  sample peak becomes the maximum of itself and the magnitude of the unfiltered sample;
  with the true-peak mode the unfiltered sample goes through the oversampler and the
  channel's true peak is updated from the oversampled magnitudes; the K-weighted sample
  is squared, multiplied by the channel weight and stored at
  \<open>buffer_head + c * length\<close>.
\<close>

definition process_sample ::
  "resampler \<Rightarrow> int \<Rightarrow> nat \<Rightarrow> real list \<Rightarrow> nat \<Rightarrow> ebur128_state_internal
     \<Rightarrow> ebur128_state_internal" where
  "process_sample os m sr frame c i =
     (let x = frame ! c;
          (ups, rs) = oversample os sr (resampler_state i ! c) x;
          (y, fs) = k_weighting (filter_coeffs i) (filter_state i ! c) x
      in i\<lparr>sample_peak :=
              (if mode_set m EBUR128_MODE_SAMPLE_PEAK
               then (sample_peak i)[c := max (sample_peak i ! c) \<bar>x\<bar>] else sample_peak i),
            true_peak :=
              (if mode_set m EBUR128_MODE_TRUE_PEAK
               then (true_peak i)[c := fold max (map abs ups) (true_peak i ! c)]
               else true_peak i),
            resampler_state :=
              (if mode_set m EBUR128_MODE_TRUE_PEAK
               then (resampler_state i)[c := rs] else resampler_state i),
            filter_state := (filter_state i)[c := fs],
            audio_buffer :=
              (audio_buffer i)
                [buffer_head i + c * (3 * sr) := channel_weight (channel_map i ! c) * y\<^sup>2]\<rparr>)"

subsection \<open>The block accumulator\<close>

text \<open>
  Modelled from the spec: the loudness of a mean square,
  \<open>L = -0.691 + 10 log\<^sub>1\<^sub>0 MS\<close>; a mean square of zero has loudness negative infinity.
\<close>

definition energy_to_loudness :: "real \<Rightarrow> dbl" where
  "energy_to_loudness ms =
     (if ms \<le> 0 then Minus_HUGE_VAL else Dbl (- 0.691 + 10 * log 10 ms))"

text \<open>
  Modelled from the spec: the block mean square at a block boundary: the sum, over
  the channels, of the last \<open>n\<close> weighted squared samples of the ring, divided by \<open>n\<close>.
\<close>

definition window_mean_square :: "nat \<Rightarrow> nat \<Rightarrow> ebur128_state_internal \<Rightarrow> nat \<Rightarrow> real" where
  "window_mean_square ch sr i n =
     (\<Sum>c\<leftarrow>[0..<ch]. \<Sum>k\<leftarrow>[0..<n].
        audio_buffer i ! (c * (3 * sr) + (buffer_head i + 3 * sr - 1 - k) mod (3 * sr)))
     / real n"

text \<open>
  Modelled from the spec: the histogram storage of a block: 1000 bins of 0.1 LU that
  span the loudnesses from -70 to +5. A block in the span bumps the count of its bin.
\<close>

definition histogram_bump :: "real \<Rightarrow> nat list \<Rightarrow> nat list" where
  "histogram_bump ms h =
     (case energy_to_loudness ms of
        Minus_HUGE_VAL \<Rightarrow> h
      | Dbl l \<Rightarrow>
          if - 70 \<le> l \<and> l < 5
          then h[nat \<lfloor>(l + 70) * 10\<rfloor> := Suc (h ! nat \<lfloor>(l + 70) * 10\<rfloor>)]
          else h)"

text \<open>
  Modelled from the spec: the blocks that are due at a block boundary (part of the
  bodies of the add-frames functions): the mean square of the last 400 ms, kept for the
  integrated loudness (mode I), and the mean square of the last 3 s, kept for the
  loudness range (mode LRA). A block whose window is not yet fully populated is
  skipped. The windows are \<open>0.4 * samplerate\<close> and \<open>3 * samplerate\<close> frames.
\<close>

definition due_400 :: "int \<Rightarrow> nat \<Rightarrow> nat \<Rightarrow> ebur128_state_internal \<Rightarrow> real list" where
  "due_400 m ch sr i =
     (if mode_set m EBUR128_MODE_I \<and> 0 < 4 * sr div 10 \<and> 4 * sr div 10 \<le> buffered_frames i
      then [window_mean_square ch sr i (4 * sr div 10)] else [])"

definition due_3000 :: "int \<Rightarrow> nat \<Rightarrow> nat \<Rightarrow> ebur128_state_internal \<Rightarrow> real list" where
  "due_3000 m ch sr i =
     (if mode_set m EBUR128_MODE_LRA \<and> 0 < 3 * sr \<and> 3 * sr \<le> buffered_frames i
      then [window_mean_square ch sr i (3 * sr)] else [])"

text \<open>
  Modelled from the spec: the storage of the due blocks (part of the bodies of the
  add-frames functions). In histogram mode a block is counted in its bin, of
  \<open>histogram\<close> for a 400 ms block and of \<open>histogram_lra\<close> for a 3 s block; otherwise it is
  appended to \<open>block_list_400\<close> or \<open>block_list_3000\<close>. Frame ingestion allocates only when
  it appends to a block list: whether the allocator has memory left is the parameter
  \<open>mem\<close> of the call, and without it the result is \<open>EBUR128_ERROR_NOMEM\<close> and the history
  is left as it was.
\<close>

definition emit_block ::
  "bool \<Rightarrow> int \<Rightarrow> nat \<Rightarrow> nat \<Rightarrow> ebur128_state_internal \<Rightarrow> error \<times> ebur128_state_internal" where
  "emit_block mem m ch sr i =
     (if mode_set m EBUR128_MODE_HISTOGRAM
      then (EBUR128_SUCCESS,
            i\<lparr>histogram := fold histogram_bump (due_400 m ch sr i) (histogram i),
              histogram_lra := fold histogram_bump (due_3000 m ch sr i) (histogram_lra i)\<rparr>)
      else if (due_400 m ch sr i \<noteq> [] \<or> due_3000 m ch sr i \<noteq> []) \<and> \<not> mem
      then (EBUR128_ERROR_NOMEM, i)
      else (EBUR128_SUCCESS,
            i\<lparr>block_list_400 := block_list_400 i @ due_400 m ch sr i,
              block_list_3000 := block_list_3000 i @ due_3000 m ch sr i\<rparr>))"

text \<open>
  Modelled from the spec: the end of a frame (part of the bodies of the add-frames
  functions). The ring advances by one frame; \<open>needed_frames\<close> is decremented, and
  when it reaches zero a block boundary is emitted and the counter is reset to
  \<open>samplerate / 10\<close>.
\<close>

definition end_of_frame ::
  "bool \<Rightarrow> int \<Rightarrow> nat \<Rightarrow> nat \<Rightarrow> ebur128_state_internal \<Rightarrow> error \<times> ebur128_state_internal" where
  "end_of_frame mem m ch sr i =
     (let i1 = i\<lparr>buffer_head := (buffer_head i + 1) mod (3 * sr),
                 buffered_frames := min (3 * sr) (buffered_frames i + 1)\<rparr>
      in if needed_frames i1 - 1 = 0
         then emit_block mem m ch sr (i1\<lparr>needed_frames := sr div 10\<rparr>)
         else (EBUR128_SUCCESS, i1\<lparr>needed_frames := needed_frames i1 - 1\<rparr>))"

text \<open>
  Modelled from the spec: the ingestion of one frame, given as the list of its
  samples, one per channel.
\<close>

definition add_frame :: "bool \<Rightarrow> resampler \<Rightarrow> state \<Rightarrow> real list \<Rightarrow> error \<times> state" where
  "add_frame mem os st frame =
     (case end_of_frame mem (mode st) (channels st) (samplerate st)
             (fold (process_sample os (mode st) (samplerate st) frame)
                [0..<channels st] (d st)) of
        (e, i) \<Rightarrow> (e, st\<lparr>d := i\<rparr>))"

text \<open>
  Modelled from the spec: \<^verbatim>\<open>ebur128_add_frames_double\<close>, declared in the header: the
  ingestion of \<open>frames\<close> frames from the interleaved array \<open>src\<close> (frame 0 all channels,
  frame 1 all channels, and so on). The array must hold \<open>frames * channels\<close> samples, as
  in C. The call ends with \<open>EBUR128_ERROR_NOMEM\<close> at the first frame whose blocks cannot
  be stored, and with \<open>EBUR128_SUCCESS\<close> after the last frame otherwise.
\<close>

fun ebur128_add_frames_double ::
  "bool \<Rightarrow> resampler \<Rightarrow> state \<Rightarrow> real list \<Rightarrow> nat \<Rightarrow> error \<times> state" where
  "ebur128_add_frames_double mem os st src 0 = (EBUR128_SUCCESS, st)"
| "ebur128_add_frames_double mem os st src (Suc n) =
     (case add_frame mem os st (take (channels st) src) of
        (e, st') \<Rightarrow>
          if e = EBUR128_SUCCESS
          then ebur128_add_frames_double mem os st' (drop (channels st) src) n
          else (e, st'))"

subsection \<open>The gated integrated loudness\<close>

text \<open>
  Modelled from the spec: a gate of the gated reduction. The threshold \<open>t\<close> discards the
  block of mean square \<open>z\<close> when the loudness of \<open>z\<close> is below \<open>t\<close>.
\<close>

definition above_gate :: "real \<Rightarrow> real \<Rightarrow> bool" where
  "above_gate t z = (case energy_to_loudness z of Minus_HUGE_VAL \<Rightarrow> False | Dbl l \<Rightarrow> \<not> l < t)"

definition mean_square :: "real list \<Rightarrow> real" where
  "mean_square zs = sum_list zs / real (length zs)"

text \<open>
  Modelled from the spec: the two-pass reduction over the 400 ms blocks (the
  computation of \<^verbatim>\<open>ebur128_loudness_global\<close>). The absolute gate is at -70 LUFS; the
  relative gate is 10 LU below the loudness of the mean of the blocks that passed the
  absolute gate; the result is the loudness of the mean of the blocks that passed both,
  and negative infinity if no block did.
\<close>

definition gated_loudness :: "real list \<Rightarrow> dbl" where
  "gated_loudness blocks =
     (let abs_gated = filter (above_gate (- 70)) blocks
      in if abs_gated = [] then Minus_HUGE_VAL
         else case energy_to_loudness (mean_square abs_gated) of
                Minus_HUGE_VAL \<Rightarrow> Minus_HUGE_VAL
              | Dbl gamma_a \<Rightarrow>
                  (let rel_gated = filter (above_gate (gamma_a - 10)) abs_gated
                   in if rel_gated = [] then Minus_HUGE_VAL
                      else energy_to_loudness (mean_square rel_gated)))"

text \<open>
  Modelled from the spec: the blocks that a histogram stands for in a gated reduction:
  the mean square of the midpoint of each bin, as often as the bin counts.
\<close>

definition histogram_blocks :: "nat list \<Rightarrow> real list" where
  "histogram_blocks h =
     concat (map (\<lambda>j. replicate (h ! j) (10 powr ((- 69.95 + real j / 10 + 0.691) / 10)))
               [0..<1000])"

text \<open>
  Modelled from the spec: \<^verbatim>\<open>ebur128_loudness_global\<close>, declared in the header. Without
  mode I the result is \<open>EBUR128_ERROR_INVALID_MODE\<close> and the out parameter keeps its
  value \<open>out\<close>.
\<close>

definition ebur128_loudness_global :: "state \<Rightarrow> dbl \<Rightarrow> error \<times> dbl" where
  "ebur128_loudness_global st out =
     (if \<not> mode_set (mode st) EBUR128_MODE_I then (EBUR128_ERROR_INVALID_MODE, out)
      else (EBUR128_SUCCESS,
            gated_loudness
              (if mode_set (mode st) EBUR128_MODE_HISTOGRAM
               then histogram_blocks (histogram (d st)) else block_list_400 (d st))))"

subsection \<open>The storage strategy\<close>

text \<open>
  The storage of a state is its two block lists and its two histograms; everything
  else of the internal state is what \<open>without_storage\<close> leaves.
\<close>

definition without_storage :: "ebur128_state_internal \<Rightarrow> ebur128_state_internal" where
  "without_storage i =
     i\<lparr>block_list_400 := [], block_list_3000 := [], histogram := [], histogram_lra := []\<rparr>"

text \<open>
  Two states differ only in the storage strategy when the second has the mode of the
  first with \<open>EBUR128_MODE_HISTOGRAM\<close> or-ed in, both agree on the channel count, the
  sample rate and everything of the internal state but the storage, the first has stored
  its blocks in the block lists and left the histograms empty, and the second has left
  the block lists empty and counted the very same blocks, in their order, in the
  histograms.
\<close>

definition only_storage_differs :: "state \<Rightarrow> state \<Rightarrow> bool" where
  "only_storage_differs s t \<longleftrightarrow>
     \<not> mode_set (mode s) EBUR128_MODE_HISTOGRAM
   \<and> mode t = mode s OR EBUR128_MODE_HISTOGRAM
   \<and> channels t = channels s
   \<and> samplerate t = samplerate s
   \<and> without_storage (d t) = without_storage (d s)
   \<and> histogram (d s) = replicate 1000 0
   \<and> histogram_lra (d s) = replicate 1000 0
   \<and> block_list_400 (d t) = []
   \<and> block_list_3000 (d t) = []
   \<and> histogram (d t) = fold histogram_bump (block_list_400 (d s)) (replicate 1000 0)
   \<and> histogram_lra (d t) = fold histogram_bump (block_list_3000 (d s)) (replicate 1000 0)"

subsection \<open>An example stream\<close>

text \<open>
  A stereo state at 20 Hz (two frames per 100 ms, eight per 400 ms window, sixty per 3 s
  window) in the modes I, LRA and sample peak, with a filter of gain 2. Its ring is full:
  every weighted squared sample of the left channel in it is 1 and every one of the right
  channel is 0. The next frame ends a 100 ms block. The example is used to instantiate
  the theorem on the histogram bit.
\<close>

definition example_state :: state where
  "example_state =
     \<lparr>mode = EBUR128_MODE_I OR EBUR128_MODE_LRA OR EBUR128_MODE_SAMPLE_PEAK,
      channels = 2, samplerate = 20,
      d = \<lparr>channel_map = [EBUR128_LEFT, EBUR128_RIGHT],
           filter_coeffs = (Biquad 1 0 0 0 0, Biquad 2 0 0 0 0),
           filter_state = [((0, 0), (0, 0)), ((0, 0), (0, 0))],
           audio_buffer = replicate 60 1 @ replicate 60 0,
           buffer_head = 7,
           buffered_frames = 60,
           needed_frames = 1,
           block_list_400 = [],
           block_list_3000 = [],
           histogram = replicate 1000 0,
           histogram_lra = replicate 1000 0,
           sample_peak = [0, 0],
           true_peak = [0, 0],
           resampler_state = [[], []]\<rparr>\<rparr>"

text \<open>Three frames: the left sample is 1/2 (1 after the filter), the right sample 0.\<close>

definition example_frames :: "real list" where
  "example_frames = [1 / 2, 0, 1 / 2, 0, 1 / 2, 0]"

text \<open>A resampler that repeats its input sample (the example has no true-peak mode).\<close>

definition example_resampler :: resampler where
  "example_resampler f rs x = (replicate f x, rs)"

definition example_design :: "nat \<Rightarrow> biquad \<times> biquad" where
  "example_design sr = (Biquad 1 0 0 0 0, Biquad 2 0 0 0 0)"

section \<open>The mode enumeration\<close>

lemma mode_values:
  "EBUR128_MODE_M = 1" "EBUR128_MODE_S = 3" "EBUR128_MODE_I = 5" "EBUR128_MODE_LRA = 11"
  "EBUR128_MODE_SAMPLE_PEAK = 17" "EBUR128_MODE_TRUE_PEAK = 33" "EBUR128_MODE_HISTOGRAM = 64"
  by (simp_all add: EBUR128_MODE_M_def EBUR128_MODE_S_def EBUR128_MODE_I_def
      EBUR128_MODE_LRA_def EBUR128_MODE_SAMPLE_PEAK_def EBUR128_MODE_TRUE_PEAK_def
      EBUR128_MODE_HISTOGRAM_def)

lemma mode_set_trans: "mode_set f g \<Longrightarrow> mode_set m f \<Longrightarrow> mode_set m g"
  unfolding mode_set_def by (metis and.assoc)

lemma flag_includes_M: "q \<noteq> Loudness_Momentary \<Longrightarrow> mode_set (can_call_flag q) EBUR128_MODE_M"
  by (cases q) (simp_all add: mode_set_def mode_values)

lemma mode_set_or_HISTOGRAM:
  "flag AND EBUR128_MODE_HISTOGRAM = 0 \<Longrightarrow>
   mode_set (m OR EBUR128_MODE_HISTOGRAM) flag \<longleftrightarrow> mode_set m flag"
  by (simp add: mode_set_def bit.conj_disj_distrib2 and.commute [of EBUR128_MODE_HISTOGRAM])

lemma can_call_flag_HISTOGRAM: "can_call_flag q AND EBUR128_MODE_HISTOGRAM = 0"
  by (cases q) (simp_all add: mode_values)

text \<open>
  Claim C5. The mode enumeration is an implication lattice. Each of
  \<open>EBUR128_MODE_S\<close>, \<open>EBUR128_MODE_I\<close>, \<open>EBUR128_MODE_SAMPLE_PEAK\<close> and
  \<open>EBUR128_MODE_TRUE_PEAK\<close> includes the bit of \<open>EBUR128_MODE_M\<close>, and
  \<open>EBUR128_MODE_LRA\<close> includes \<open>EBUR128_MODE_S\<close> and so \<open>EBUR128_MODE_M\<close>. Hence in every
  state whose mode has one of these enumerators set, \<open>EBUR128_MODE_M\<close> is set as well
  (the momentary query can be called), and in every state whose mode has
  \<open>EBUR128_MODE_LRA\<close> set, \<open>EBUR128_MODE_S\<close> is set as well (the short-term query can be
  called).
\<close>

theorem mode_implication_lattice:
  fixes st :: "'i ebur128_state"
  shows "mode_set EBUR128_MODE_S EBUR128_MODE_M
       \<and> mode_set EBUR128_MODE_I EBUR128_MODE_M
       \<and> mode_set EBUR128_MODE_SAMPLE_PEAK EBUR128_MODE_M
       \<and> mode_set EBUR128_MODE_TRUE_PEAK EBUR128_MODE_M
       \<and> mode_set EBUR128_MODE_LRA EBUR128_MODE_S
       \<and> mode_set EBUR128_MODE_LRA EBUR128_MODE_M
       \<and> (mode_set (mode st) EBUR128_MODE_S \<longrightarrow> can_call (mode st) Loudness_Momentary)
       \<and> (mode_set (mode st) EBUR128_MODE_I \<longrightarrow> can_call (mode st) Loudness_Momentary)
       \<and> (mode_set (mode st) EBUR128_MODE_SAMPLE_PEAK \<longrightarrow> can_call (mode st) Loudness_Momentary)
       \<and> (mode_set (mode st) EBUR128_MODE_TRUE_PEAK \<longrightarrow> can_call (mode st) Loudness_Momentary)
       \<and> (mode_set (mode st) EBUR128_MODE_LRA \<longrightarrow> can_call (mode st) Loudness_Momentary)
       \<and> (mode_set (mode st) EBUR128_MODE_LRA \<longrightarrow> can_call (mode st) Loudness_Shortterm)"
proof -
  have incl:
    "mode_set EBUR128_MODE_S EBUR128_MODE_M" "mode_set EBUR128_MODE_I EBUR128_MODE_M"
    "mode_set EBUR128_MODE_SAMPLE_PEAK EBUR128_MODE_M"
    "mode_set EBUR128_MODE_TRUE_PEAK EBUR128_MODE_M"
    "mode_set EBUR128_MODE_LRA EBUR128_MODE_S" "mode_set EBUR128_MODE_LRA EBUR128_MODE_M"
    by (simp_all add: mode_set_def mode_values)
  show ?thesis
    unfolding can_call_def can_call_flag.simps
    using incl by (blast intro: mode_set_trans)
qed

theorem mode_implication_lattice_witness:
  "mode_set (mode \<lparr>mode = EBUR128_MODE_LRA OR EBUR128_MODE_I OR EBUR128_MODE_SAMPLE_PEAK
                          OR EBUR128_MODE_TRUE_PEAK,
                   channels = 2, samplerate = 48000, d = ()\<rparr>) EBUR128_MODE_S
 \<and> mode_set (mode \<lparr>mode = EBUR128_MODE_LRA OR EBUR128_MODE_I OR EBUR128_MODE_SAMPLE_PEAK
                          OR EBUR128_MODE_TRUE_PEAK,
                   channels = 2, samplerate = 48000, d = ()\<rparr>) EBUR128_MODE_I
 \<and> mode_set (mode \<lparr>mode = EBUR128_MODE_LRA OR EBUR128_MODE_I OR EBUR128_MODE_SAMPLE_PEAK
                          OR EBUR128_MODE_TRUE_PEAK,
                   channels = 2, samplerate = 48000, d = ()\<rparr>) EBUR128_MODE_SAMPLE_PEAK
 \<and> mode_set (mode \<lparr>mode = EBUR128_MODE_LRA OR EBUR128_MODE_I OR EBUR128_MODE_SAMPLE_PEAK
                          OR EBUR128_MODE_TRUE_PEAK,
                   channels = 2, samplerate = 48000, d = ()\<rparr>) EBUR128_MODE_TRUE_PEAK
 \<and> mode_set (mode \<lparr>mode = EBUR128_MODE_LRA OR EBUR128_MODE_I OR EBUR128_MODE_SAMPLE_PEAK
                          OR EBUR128_MODE_TRUE_PEAK,
                   channels = 2, samplerate = 48000, d = ()\<rparr>) EBUR128_MODE_LRA
 \<and> can_call (mode \<lparr>mode = EBUR128_MODE_LRA OR EBUR128_MODE_I OR EBUR128_MODE_SAMPLE_PEAK
                          OR EBUR128_MODE_TRUE_PEAK,
                   channels = 2, samplerate = 48000, d = ()\<rparr>) Loudness_Momentary
 \<and> can_call (mode \<lparr>mode = EBUR128_MODE_LRA OR EBUR128_MODE_I OR EBUR128_MODE_SAMPLE_PEAK
                          OR EBUR128_MODE_TRUE_PEAK,
                   channels = 2, samplerate = 48000, d = ()\<rparr>) Loudness_Shortterm"
proof -
  let ?st = "\<lparr>mode = EBUR128_MODE_LRA OR EBUR128_MODE_I OR EBUR128_MODE_SAMPLE_PEAK
                     OR EBUR128_MODE_TRUE_PEAK,
              channels = 2, samplerate = 48000, d = ()\<rparr>"
  have pre:
    "mode_set (mode ?st) EBUR128_MODE_S" "mode_set (mode ?st) EBUR128_MODE_I"
    "mode_set (mode ?st) EBUR128_MODE_SAMPLE_PEAK" "mode_set (mode ?st) EBUR128_MODE_TRUE_PEAK"
    "mode_set (mode ?st) EBUR128_MODE_LRA"
    by (simp_all add: mode_set_def mode_values)
  from pre mode_implication_lattice [of ?st] show ?thesis
    by blast
qed

section \<open>The histogram bit\<close>

lemma without_storage_eq_iff:
  "without_storage i = without_storage j \<longleftrightarrow>
     channel_map i = channel_map j \<and> filter_coeffs i = filter_coeffs j
   \<and> filter_state i = filter_state j \<and> audio_buffer i = audio_buffer j
   \<and> buffer_head i = buffer_head j \<and> buffered_frames i = buffered_frames j
   \<and> needed_frames i = needed_frames j \<and> sample_peak i = sample_peak j
   \<and> true_peak i = true_peak j \<and> resampler_state i = resampler_state j"
  by (cases i; cases j) (auto simp add: without_storage_def)

lemma mode_set_or_HISTOGRAM_flags:
  "mode_set (m OR EBUR128_MODE_HISTOGRAM) EBUR128_MODE_I = mode_set m EBUR128_MODE_I"
  "mode_set (m OR EBUR128_MODE_HISTOGRAM) EBUR128_MODE_LRA = mode_set m EBUR128_MODE_LRA"
  "mode_set (m OR EBUR128_MODE_HISTOGRAM) EBUR128_MODE_SAMPLE_PEAK
     = mode_set m EBUR128_MODE_SAMPLE_PEAK"
  "mode_set (m OR EBUR128_MODE_HISTOGRAM) EBUR128_MODE_TRUE_PEAK
     = mode_set m EBUR128_MODE_TRUE_PEAK"
  by (rule mode_set_or_HISTOGRAM, simp add: mode_values)+

lemma mode_set_HISTOGRAM_or: "mode_set (m OR EBUR128_MODE_HISTOGRAM) EBUR128_MODE_HISTOGRAM"
  unfolding mode_set_def by (auto simp add: bit_eq_iff bit_and_iff bit_or_iff)

lemma process_sample_storage:
  "block_list_400 (process_sample os m sr frame c i) = block_list_400 i"
  "block_list_3000 (process_sample os m sr frame c i) = block_list_3000 i"
  "histogram (process_sample os m sr frame c i) = histogram i"
  "histogram_lra (process_sample os m sr frame c i) = histogram_lra i"
  by (simp_all add: process_sample_def Let_def split: prod.splits)

lemma process_sample_without_storage:
  assumes "without_storage j = without_storage i"
  shows "without_storage (process_sample os (m OR EBUR128_MODE_HISTOGRAM) sr frame c j)
       = without_storage (process_sample os m sr frame c i)"
  using assms
  by (simp add: without_storage_eq_iff process_sample_def Let_def
      mode_set_or_HISTOGRAM_flags split: prod.splits)

lemma fold_process_sample_storage:
  "block_list_400 (fold (process_sample os m sr frame) cs i) = block_list_400 i"
  "block_list_3000 (fold (process_sample os m sr frame) cs i) = block_list_3000 i"
  "histogram (fold (process_sample os m sr frame) cs i) = histogram i"
  "histogram_lra (fold (process_sample os m sr frame) cs i) = histogram_lra i"
  by (induction cs arbitrary: i) (simp_all add: process_sample_storage)

lemma fold_process_sample_without_storage:
  "without_storage j = without_storage i \<Longrightarrow>
   without_storage (fold (process_sample os (m OR EBUR128_MODE_HISTOGRAM) sr frame) cs j)
     = without_storage (fold (process_sample os m sr frame) cs i)"
  by (induction cs arbitrary: i j) (simp_all add: process_sample_without_storage)

lemma window_mean_square_without_storage:
  "without_storage j = without_storage i \<Longrightarrow>
   window_mean_square ch sr j n = window_mean_square ch sr i n"
  by (simp add: without_storage_eq_iff window_mean_square_def)

lemma due_without_storage:
  assumes "without_storage j = without_storage i"
  shows "due_400 (m OR EBUR128_MODE_HISTOGRAM) ch sr j = due_400 m ch sr i"
    and "due_3000 (m OR EBUR128_MODE_HISTOGRAM) ch sr j = due_3000 m ch sr i"
  using assms window_mean_square_without_storage [OF assms]
  by (simp_all add: due_400_def due_3000_def mode_set_or_HISTOGRAM_flags without_storage_eq_iff)

lemma without_storage_update:
  "without_storage j = without_storage i \<Longrightarrow>
   without_storage (j\<lparr>buffer_head := h, buffered_frames := b, needed_frames := n\<rparr>)
     = without_storage (i\<lparr>buffer_head := h, buffered_frames := b, needed_frames := n\<rparr>)"
  "without_storage (i\<lparr>block_list_400 := a, block_list_3000 := b'\<rparr>) = without_storage i"
  "without_storage (i\<lparr>histogram := c, histogram_lra := c'\<rparr>) = without_storage i"
  by (simp_all add: without_storage_eq_iff)

lemma end_of_frame_simulation:
  assumes ws: "without_storage j = without_storage i"
    and nh: "\<not> mode_set m EBUR128_MODE_HISTOGRAM"
    and ok: "end_of_frame mem m ch sr i = (EBUR128_SUCCESS, i')"
  shows "\<exists>j'. end_of_frame mem' (m OR EBUR128_MODE_HISTOGRAM) ch sr j = (EBUR128_SUCCESS, j')
      \<and> without_storage j' = without_storage i'
      \<and> histogram i' = histogram i \<and> histogram_lra i' = histogram_lra i
      \<and> block_list_400 j' = block_list_400 j \<and> block_list_3000 j' = block_list_3000 j
      \<and> (\<exists>new400 new3000.
            block_list_400 i' = block_list_400 i @ new400
          \<and> block_list_3000 i' = block_list_3000 i @ new3000
          \<and> histogram j' = fold histogram_bump new400 (histogram j)
          \<and> histogram_lra j' = fold histogram_bump new3000 (histogram_lra j))"
proof -
  define i1 where "i1 = i\<lparr>buffer_head := (buffer_head i + 1) mod (3 * sr),
      buffered_frames := min (3 * sr) (buffered_frames i + 1)\<rparr>"
  define j1 where "j1 = j\<lparr>buffer_head := (buffer_head j + 1) mod (3 * sr),
      buffered_frames := min (3 * sr) (buffered_frames j + 1)\<rparr>"
  have ws1: "without_storage j1 = without_storage i1"
    using ws by (simp add: i1_def j1_def without_storage_eq_iff)
  have nf: "needed_frames j1 = needed_frames i1"
    using ws1 by (simp add: without_storage_eq_iff)
  show ?thesis
  proof (cases "needed_frames i1 - 1 = 0")
    case False
    have i': "i' = i1\<lparr>needed_frames := needed_frames i1 - 1\<rparr>"
      using ok False by (simp add: end_of_frame_def Let_def i1_def)
    define j' where "j' = j1\<lparr>needed_frames := needed_frames i1 - 1\<rparr>"
    have ej: "end_of_frame mem' (m OR EBUR128_MODE_HISTOGRAM) ch sr j = (EBUR128_SUCCESS, j')"
      using False nf by (simp add: end_of_frame_def Let_def j1_def j'_def)
    have "without_storage j' = without_storage i'"
      using ws1 by (simp add: i' j'_def without_storage_eq_iff)
    moreover have "histogram i' = histogram i" "histogram_lra i' = histogram_lra i"
      "block_list_400 j' = block_list_400 j" "block_list_3000 j' = block_list_3000 j"
      by (simp_all add: i' j'_def i1_def j1_def)
    moreover have "block_list_400 i' = block_list_400 i @ []"
      "block_list_3000 i' = block_list_3000 i @ []"
      "histogram j' = fold histogram_bump [] (histogram j)"
      "histogram_lra j' = fold histogram_bump [] (histogram_lra j)"
      by (simp_all add: i' j'_def i1_def j1_def)
    ultimately show ?thesis
      using ej by blast
  next
    case True
    define i2 where "i2 = i1\<lparr>needed_frames := sr div 10\<rparr>"
    define j2 where "j2 = j1\<lparr>needed_frames := sr div 10\<rparr>"
    have ws2: "without_storage j2 = without_storage i2"
      using ws1 by (simp add: i2_def j2_def without_storage_eq_iff)
    have due: "due_400 (m OR EBUR128_MODE_HISTOGRAM) ch sr j2 = due_400 m ch sr i2"
      "due_3000 (m OR EBUR128_MODE_HISTOGRAM) ch sr j2 = due_3000 m ch sr i2"
      using due_without_storage [OF ws2] by simp_all
    have eb: "emit_block mem m ch sr i2 = (EBUR128_SUCCESS, i')"
      using ok True by (simp add: end_of_frame_def Let_def i1_def i2_def)
    have i': "i' = i2\<lparr>block_list_400 := block_list_400 i2 @ due_400 m ch sr i2,
        block_list_3000 := block_list_3000 i2 @ due_3000 m ch sr i2\<rparr>"
      using eb nh by (simp add: emit_block_def split: if_splits)
    define j' where "j' = j2\<lparr>histogram := fold histogram_bump (due_400 m ch sr i2) (histogram j2),
        histogram_lra := fold histogram_bump (due_3000 m ch sr i2) (histogram_lra j2)\<rparr>"
    have ej: "end_of_frame mem' (m OR EBUR128_MODE_HISTOGRAM) ch sr j = (EBUR128_SUCCESS, j')"
      using True nf due
      by (simp add: end_of_frame_def Let_def emit_block_def mode_set_HISTOGRAM_or j'_def
          j2_def j1_def)
    have "without_storage j' = without_storage i'"
      using ws2 by (simp add: i' j'_def without_storage_eq_iff)
    moreover have "histogram i' = histogram i" "histogram_lra i' = histogram_lra i"
      "block_list_400 j' = block_list_400 j" "block_list_3000 j' = block_list_3000 j"
      by (simp_all add: i' j'_def i2_def j2_def i1_def j1_def)
    moreover have "block_list_400 i' = block_list_400 i @ due_400 m ch sr i2"
      "block_list_3000 i' = block_list_3000 i @ due_3000 m ch sr i2"
      "histogram j' = fold histogram_bump (due_400 m ch sr i2) (histogram j)"
      "histogram_lra j' = fold histogram_bump (due_3000 m ch sr i2) (histogram_lra j)"
      by (simp_all add: i' j'_def i2_def j2_def i1_def j1_def)
    ultimately show ?thesis
      using ej by blast
  qed
qed

lemma add_frame_simulation:
  assumes rel: "only_storage_differs s t"
    and ok: "add_frame mem os s frame = (EBUR128_SUCCESS, s')"
  shows "\<exists>t'. add_frame mem' os t frame = (EBUR128_SUCCESS, t') \<and> only_storage_differs s' t'"
proof -
  define i where "i = fold (process_sample os (mode s) (samplerate s) frame) [0..<channels s] (d s)"
  define j where "j = fold (process_sample os (mode s OR EBUR128_MODE_HISTOGRAM) (samplerate s)
      frame) [0..<channels s] (d t)"
  from rel have nh: "\<not> mode_set (mode s) EBUR128_MODE_HISTOGRAM"
    and mt: "mode t = mode s OR EBUR128_MODE_HISTOGRAM"
    and ct: "channels t = channels s" and rt: "samplerate t = samplerate s"
    and ws: "without_storage (d t) = without_storage (d s)"
    and hs: "histogram (d s) = replicate 1000 0" "histogram_lra (d s) = replicate 1000 0"
    and bt: "block_list_400 (d t) = []" "block_list_3000 (d t) = []"
    and ht: "histogram (d t) = fold histogram_bump (block_list_400 (d s)) (replicate 1000 0)"
      "histogram_lra (d t) = fold histogram_bump (block_list_3000 (d s)) (replicate 1000 0)"
    by (simp_all add: only_storage_differs_def)
  have wij: "without_storage j = without_storage i"
    unfolding i_def j_def by (rule fold_process_sample_without_storage) (rule ws)
  obtain i' where ei: "end_of_frame mem (mode s) (channels s) (samplerate s) i
      = (EBUR128_SUCCESS, i')" and s': "s' = s\<lparr>d := i'\<rparr>"
    using ok by (auto simp add: add_frame_def i_def split: prod.splits)
  from end_of_frame_simulation [OF wij nh ei, of mem']
  obtain j' new400 new3000 where
    ej: "end_of_frame mem' (mode s OR EBUR128_MODE_HISTOGRAM) (channels s) (samplerate s) j
      = (EBUR128_SUCCESS, j')"
    and w': "without_storage j' = without_storage i'"
    and hi: "histogram i' = histogram i" "histogram_lra i' = histogram_lra i"
    and bj: "block_list_400 j' = block_list_400 j" "block_list_3000 j' = block_list_3000 j"
    and new: "block_list_400 i' = block_list_400 i @ new400"
      "block_list_3000 i' = block_list_3000 i @ new3000"
      "histogram j' = fold histogram_bump new400 (histogram j)"
      "histogram_lra j' = fold histogram_bump new3000 (histogram_lra j)"
    by blast
  have st_i: "block_list_400 i = block_list_400 (d s)" "block_list_3000 i = block_list_3000 (d s)"
    "histogram i = histogram (d s)" "histogram_lra i = histogram_lra (d s)"
    by (simp_all add: i_def fold_process_sample_storage)
  have st_j: "block_list_400 j = block_list_400 (d t)" "block_list_3000 j = block_list_3000 (d t)"
    "histogram j = histogram (d t)" "histogram_lra j = histogram_lra (d t)"
    by (simp_all add: j_def fold_process_sample_storage)
  have at: "add_frame mem' os t frame = (EBUR128_SUCCESS, t\<lparr>d := j'\<rparr>)"
    using ej by (simp add: add_frame_def mt ct rt j_def)
  have "only_storage_differs s' (t\<lparr>d := j'\<rparr>)"
    by (simp add: only_storage_differs_def s' nh mt ct rt w' hi bj new st_i st_j hs bt ht)
  with at show ?thesis by blast
qed

lemma add_frame_fields:
  "add_frame mem os s frame = (e, s') \<Longrightarrow>
   channels s' = channels s \<and> samplerate s' = samplerate s \<and> mode s' = mode s"
  by (auto simp add: add_frame_def split: prod.splits)

lemma add_frames_fields:
  "ebur128_add_frames_double mem os s src n = (e, s') \<Longrightarrow>
   channels s' = channels s \<and> samplerate s' = samplerate s \<and> mode s' = mode s"
proof (induction n arbitrary: s src)
  case 0
  then show ?case by auto
next
  case (Suc n)
  obtain e1 s1 where a: "add_frame mem os s (take (channels s) src) = (e1, s1)"
    by (cases "add_frame mem os s (take (channels s) src)")
  note f = add_frame_fields [OF a]
  show ?case
  proof (cases "e1 = EBUR128_SUCCESS")
    case True
    with Suc.prems a
    have "ebur128_add_frames_double mem os s1 (drop (channels s) src) n = (e, s')"
      by simp
    from Suc.IH [OF this] f show ?thesis by simp
  next
    case False
    with Suc.prems a f show ?thesis by auto
  qed
qed

lemma add_frames_simulation:
  "only_storage_differs s t \<Longrightarrow>
   ebur128_add_frames_double mem os s src n = (EBUR128_SUCCESS, s') \<Longrightarrow>
   \<exists>t'. ebur128_add_frames_double mem' os t src n = (EBUR128_SUCCESS, t')
      \<and> only_storage_differs s' t'"
proof (induction n arbitrary: s t src)
  case 0
  then show ?case by simp
next
  case (Suc n)
  obtain e s1 where a1: "add_frame mem os s (take (channels s) src) = (e, s1)"
    by (cases "add_frame mem os s (take (channels s) src)")
  with Suc.prems(2) have e: "e = EBUR128_SUCCESS"
    and rest: "ebur128_add_frames_double mem os s1 (drop (channels s) src) n
      = (EBUR128_SUCCESS, s')"
    by (auto split: if_splits)
  from add_frame_simulation [OF Suc.prems(1) a1 [unfolded e], of mem']
  obtain t1 where b1: "add_frame mem' os t (take (channels s) src) = (EBUR128_SUCCESS, t1)"
    and r1: "only_storage_differs s1 t1"
    by blast
  from Suc.IH [OF r1 rest] obtain t' where
    "ebur128_add_frames_double mem' os t1 (drop (channels s) src) n = (EBUR128_SUCCESS, t')"
    "only_storage_differs s' t'"
    by blast
  moreover have "channels t = channels s"
    using Suc.prems(1) by (simp add: only_storage_differs_def)
  ultimately show ?case
    using b1 by simp
qed

lemma init_only_storage_differs:
  "\<not> mode_set m EBUR128_MODE_HISTOGRAM \<Longrightarrow>
   ebur128_init True design ch sr m = Some s \<Longrightarrow>
   \<exists>t. ebur128_init True design ch sr (m OR EBUR128_MODE_HISTOGRAM) = Some t
      \<and> only_storage_differs s t"
  by (auto simp add: ebur128_init_def only_storage_differs_def)

lemma loudness_global_storage:
  assumes "only_storage_differs s t"
  shows "fst (ebur128_loudness_global t out) = fst (ebur128_loudness_global s out)"
    and "mode_set (mode s) EBUR128_MODE_I \<Longrightarrow>
         ebur128_loudness_global s out
           = (EBUR128_SUCCESS, gated_loudness (block_list_400 (d s)))
       \<and> ebur128_loudness_global t out
           = (EBUR128_SUCCESS, gated_loudness (histogram_blocks (histogram (d t))))"
  using assms
  by (simp_all add: ebur128_loudness_global_def only_storage_differs_def
      mode_set_or_HISTOGRAM_flags mode_set_HISTOGRAM_or)

lemma histogram_mode_add_frame:
  "mode_set (mode t) EBUR128_MODE_HISTOGRAM \<Longrightarrow>
   fst (add_frame mem os t frame) = EBUR128_SUCCESS"
  by (simp add: add_frame_def end_of_frame_def emit_block_def Let_def split: prod.splits)

lemma histogram_mode_never_nomem:
  "mode_set (mode t) EBUR128_MODE_HISTOGRAM \<Longrightarrow>
   fst (ebur128_add_frames_double mem os t src n) = EBUR128_SUCCESS"
proof (induction n arbitrary: t src)
  case 0
  show ?case by simp
next
  case (Suc n)
  obtain e t1 where a: "add_frame mem os t (take (channels t) src) = (e, t1)"
    by (cases "add_frame mem os t (take (channels t) src)")
  with histogram_mode_add_frame [OF Suc.prems, of mem os "take (channels t) src"]
  have e: "e = EBUR128_SUCCESS" by simp
  have "mode t1 = mode t" using add_frame_fields [OF a] by simp
  with Suc.prems Suc.IH [of t1] a e show ?case by simp
qed

lemma add_frames_double_numeral:
  "ebur128_add_frames_double mem os st src (numeral k) =
     (case add_frame mem os st (take (channels st) src) of
        (e, st') \<Rightarrow>
          if e = EBUR128_SUCCESS
          then ebur128_add_frames_double mem os st' (drop (channels st) src) (pred_numeral k)
          else (e, st'))"
  by (simp add: numeral_eq_Suc)

lemma upt_unfold: "[i..<numeral k] = (if i < numeral k then i # [Suc i..<numeral k] else [])"
  by (simp add: upt_rec)


lemma example_run:
  "fst (ebur128_add_frames_double True example_resampler example_state example_frames 3)
     = EBUR128_SUCCESS
 \<and> block_list_400
       (d (snd (ebur128_add_frames_double True example_resampler example_state example_frames 3)))
     = [1, 1]
 \<and> block_list_3000
       (d (snd (ebur128_add_frames_double True example_resampler example_state example_frames 3)))
     = [1, 1]"
  by (simp add: example_state_def example_frames_def example_resampler_def
      add_frames_double_numeral add_frame_def end_of_frame_def emit_block_def
      due_400_def due_3000_def process_sample_def window_mean_square_def k_weighting_def
      oversample_def oversampling_factor_def mode_set_def mode_values Let_def upt_unfold
      nth_append power2_eq_square)

lemma example_bins: "fold histogram_bump [1, 1] (replicate 1000 0) ! 693 = 2"
  by (simp add: histogram_bump_def energy_to_loudness_def)

lemma example_loudness: "gated_loudness [1, 1] = Dbl (- 0.691)"
  by (simp add: gated_loudness_def above_gate_def energy_to_loudness_def mean_square_def)

text \<open>
  Claim C10. \<open>EBUR128_MODE_HISTOGRAM\<close> is the bare bit \<^verbatim>\<open>1 << 6\<close>. Among the
  enumerators of the mode enumeration it is the only one that does not include
  \<open>EBUR128_MODE_M\<close>, and its bitwise and with \<open>EBUR128_MODE_M\<close> is zero. A state whose mode
  is \<open>EBUR128_MODE_HISTOGRAM\<close> alone has none of the enumerators set that allow a
  measurement query. Or-ing \<open>EBUR128_MODE_HISTOGRAM\<close> into any mode (for instance
  \<open>EBUR128_MODE_I\<close> or \<open>EBUR128_MODE_LRA\<close>) sets the histogram bit and changes for no
  query whether it can be called.

  It changes only the storage strategy. At a block boundary the same blocks are due
  with and without the bit; without it they are appended to the block lists, with it
  they are counted in the histograms. Two states initialised alike but for the bit
  differ only in the storage strategy, and whenever a batch of frames is ingested with
  success by the state without the bit, the state with the bit ingests it with success
  too, even without memory, and the two states still differ only in the storage
  strategy: everything but the block lists and histograms is equal, and the blocks that
  the one state has appended to \<open>block_list_400\<close> and \<open>block_list_3000\<close> are the blocks that
  the other has counted in \<open>histogram\<close> and \<open>histogram_lra\<close>. A state with the bit never runs
  out of memory while it ingests. \<open>ebur128_loudness_global\<close> has the same status on both
  states; with mode I it reduces the block list of the one and the bins of the other.
  (The reduction of the loudness range is not part of the model.)
\<close>

theorem histogram_is_bare_bit:
  fixes st :: "'i ebur128_state" and s t s' s_init :: state
  shows "EBUR128_MODE_HISTOGRAM = push_bit 6 1
       \<and> EBUR128_MODE_HISTOGRAM = 64
       \<and> EBUR128_MODE_HISTOGRAM AND EBUR128_MODE_M = 0
       \<and> filter (\<lambda>flag. \<not> mode_set flag EBUR128_MODE_M) mode_enum = [EBUR128_MODE_HISTOGRAM]
       \<and> \<not> can_call (mode (st\<lparr>mode := EBUR128_MODE_HISTOGRAM\<rparr>)) q
       \<and> mode_set (mode (st\<lparr>mode := mode st OR EBUR128_MODE_HISTOGRAM\<rparr>)) EBUR128_MODE_HISTOGRAM
       \<and> can_call (mode (st\<lparr>mode := mode st OR EBUR128_MODE_HISTOGRAM\<rparr>)) q = can_call (mode st) q
       \<and> can_call (EBUR128_MODE_I OR EBUR128_MODE_HISTOGRAM) q = can_call EBUR128_MODE_I q
       \<and> can_call (EBUR128_MODE_LRA OR EBUR128_MODE_HISTOGRAM) q = can_call EBUR128_MODE_LRA q
       \<and> (\<not> mode_set m EBUR128_MODE_HISTOGRAM \<longrightarrow>
            ebur128_init True design ch sr m = Some s_init \<longrightarrow>
            (\<exists>t_init. ebur128_init True design ch sr (m OR EBUR128_MODE_HISTOGRAM) = Some t_init
               \<and> only_storage_differs s_init t_init))
       \<and> (\<not> mode_set m EBUR128_MODE_HISTOGRAM \<longrightarrow>
            emit_block True m ch sr i
              = (EBUR128_SUCCESS,
                 i\<lparr>block_list_400 := block_list_400 i @ due_400 m ch sr i,
                   block_list_3000 := block_list_3000 i @ due_3000 m ch sr i\<rparr>))
       \<and> emit_block mem (m OR EBUR128_MODE_HISTOGRAM) ch sr i
            = (EBUR128_SUCCESS,
               i\<lparr>histogram := fold histogram_bump (due_400 m ch sr i) (histogram i),
                 histogram_lra := fold histogram_bump (due_3000 m ch sr i) (histogram_lra i)\<rparr>)
       \<and> (only_storage_differs s t \<longrightarrow>
            ebur128_add_frames_double mem os s src n = (EBUR128_SUCCESS, s') \<longrightarrow>
            (\<exists>t'. ebur128_add_frames_double mem' os t src n = (EBUR128_SUCCESS, t')
               \<and> only_storage_differs s' t'))
       \<and> (mode_set (mode t) EBUR128_MODE_HISTOGRAM \<longrightarrow>
            fst (ebur128_add_frames_double mem os t src n) = EBUR128_SUCCESS)
       \<and> (only_storage_differs s t \<longrightarrow>
            fst (ebur128_loudness_global t out) = fst (ebur128_loudness_global s out))
       \<and> (only_storage_differs s t \<longrightarrow> mode_set (mode s) EBUR128_MODE_I \<longrightarrow>
            ebur128_loudness_global s out
              = (EBUR128_SUCCESS, gated_loudness (block_list_400 (d s)))
          \<and> ebur128_loudness_global t out
              = (EBUR128_SUCCESS, gated_loudness (histogram_blocks (histogram (d t)))))"
proof -
  have bare: "EBUR128_MODE_HISTOGRAM = push_bit 6 1" "EBUR128_MODE_HISTOGRAM = 64"
    "EBUR128_MODE_HISTOGRAM AND EBUR128_MODE_M = 0"
    by (simp_all add: mode_values)
  have only: "filter (\<lambda>flag. \<not> mode_set flag EBUR128_MODE_M) mode_enum = [EBUR128_MODE_HISTOGRAM]"
    by (simp add: mode_enum_def mode_set_def mode_values)
  have none: "\<not> can_call EBUR128_MODE_HISTOGRAM q"
    by (cases q) (simp_all add: can_call_def mode_set_def mode_values)
  have same: "can_call (m OR EBUR128_MODE_HISTOGRAM) q = can_call m q" for m
    by (simp add: can_call_def mode_set_or_HISTOGRAM can_call_flag_HISTOGRAM)
  have enum: "EBUR128_MODE_HISTOGRAM = push_bit 6 1
       \<and> EBUR128_MODE_HISTOGRAM = 64
       \<and> EBUR128_MODE_HISTOGRAM AND EBUR128_MODE_M = 0
       \<and> filter (\<lambda>flag. \<not> mode_set flag EBUR128_MODE_M) mode_enum = [EBUR128_MODE_HISTOGRAM]
       \<and> \<not> can_call (mode (st\<lparr>mode := EBUR128_MODE_HISTOGRAM\<rparr>)) q
       \<and> mode_set (mode (st\<lparr>mode := mode st OR EBUR128_MODE_HISTOGRAM\<rparr>)) EBUR128_MODE_HISTOGRAM
       \<and> can_call (mode (st\<lparr>mode := mode st OR EBUR128_MODE_HISTOGRAM\<rparr>)) q = can_call (mode st) q
       \<and> can_call (EBUR128_MODE_I OR EBUR128_MODE_HISTOGRAM) q = can_call EBUR128_MODE_I q
       \<and> can_call (EBUR128_MODE_LRA OR EBUR128_MODE_HISTOGRAM) q = can_call EBUR128_MODE_LRA q"
    using bare only none same mode_set_HISTOGRAM_or by simp
  have init: "\<not> mode_set m EBUR128_MODE_HISTOGRAM \<longrightarrow>
      ebur128_init True design ch sr m = Some s_init \<longrightarrow>
      (\<exists>t_init. ebur128_init True design ch sr (m OR EBUR128_MODE_HISTOGRAM) = Some t_init
         \<and> only_storage_differs s_init t_init)"
    using init_only_storage_differs by blast
  have emit: "\<not> mode_set m EBUR128_MODE_HISTOGRAM \<longrightarrow>
      emit_block True m ch sr i
        = (EBUR128_SUCCESS,
           i\<lparr>block_list_400 := block_list_400 i @ due_400 m ch sr i,
             block_list_3000 := block_list_3000 i @ due_3000 m ch sr i\<rparr>)"
    "emit_block mem (m OR EBUR128_MODE_HISTOGRAM) ch sr i
      = (EBUR128_SUCCESS,
         i\<lparr>histogram := fold histogram_bump (due_400 m ch sr i) (histogram i),
           histogram_lra := fold histogram_bump (due_3000 m ch sr i) (histogram_lra i)\<rparr>)"
    using due_without_storage [of i i m ch sr]
    by (simp_all add: emit_block_def mode_set_HISTOGRAM_or)
  have ingest: "only_storage_differs s t \<longrightarrow>
      ebur128_add_frames_double mem os s src n = (EBUR128_SUCCESS, s') \<longrightarrow>
      (\<exists>t'. ebur128_add_frames_double mem' os t src n = (EBUR128_SUCCESS, t')
         \<and> only_storage_differs s' t')"
    using add_frames_simulation by blast
  have nomem: "mode_set (mode t) EBUR128_MODE_HISTOGRAM \<longrightarrow>
      fst (ebur128_add_frames_double mem os t src n) = EBUR128_SUCCESS"
    using histogram_mode_never_nomem by blast
  have query: "only_storage_differs s t \<longrightarrow>
      fst (ebur128_loudness_global t out) = fst (ebur128_loudness_global s out)"
    "only_storage_differs s t \<longrightarrow> mode_set (mode s) EBUR128_MODE_I \<longrightarrow>
      ebur128_loudness_global s out
        = (EBUR128_SUCCESS, gated_loudness (block_list_400 (d s)))
    \<and> ebur128_loudness_global t out
        = (EBUR128_SUCCESS, gated_loudness (histogram_blocks (histogram (d t))))"
    using loudness_global_storage by blast+
  from enum init emit ingest nomem query show ?thesis
    by (intro conjI) blast+
qed

text \<open>
  An instance. At the block boundary of the example state one 400 ms block and one
  3 s block of mean square 1 are due and are appended. Initialised at 20 Hz in stereo with the modes I and LRA, the states with
  and without the bit differ only in the storage strategy. The example state ingests the
  three example frames with success and appends two 400 ms blocks and two 3 s blocks of
  mean square 1; with the bit or-ed into its mode it ingests them with success without
  memory, appends nothing, and counts two blocks in bin 693 (the bin of -0.691 LUFS) of
  either histogram. The integrated loudness of the block lists is -0.691 LUFS.
\<close>

theorem histogram_is_bare_bit_witness:
  "emit_block True (mode example_state) 2 20 (d example_state)
     = (EBUR128_SUCCESS,
        (d example_state)\<lparr>block_list_400 := [1], block_list_3000 := [1]\<rparr>)
 \<and> only_storage_differs
     (the (ebur128_init True example_design 2 20 (EBUR128_MODE_I OR EBUR128_MODE_LRA)))
     (the (ebur128_init True example_design 2 20
        ((EBUR128_MODE_I OR EBUR128_MODE_LRA) OR EBUR128_MODE_HISTOGRAM)))
 \<and> fst (ebur128_add_frames_double True example_resampler example_state example_frames 3)
     = EBUR128_SUCCESS
 \<and> block_list_400
       (d (snd (ebur128_add_frames_double True example_resampler example_state example_frames 3)))
     = [1, 1]
 \<and> block_list_3000
       (d (snd (ebur128_add_frames_double True example_resampler example_state example_frames 3)))
     = [1, 1]
 \<and> fst (ebur128_add_frames_double False example_resampler
       (example_state\<lparr>mode := mode example_state OR EBUR128_MODE_HISTOGRAM\<rparr>)
       example_frames 3) = EBUR128_SUCCESS
 \<and> only_storage_differs
       (snd (ebur128_add_frames_double True example_resampler example_state example_frames 3))
       (snd (ebur128_add_frames_double False example_resampler
          (example_state\<lparr>mode := mode example_state OR EBUR128_MODE_HISTOGRAM\<rparr>)
          example_frames 3))
 \<and> block_list_400
       (d (snd (ebur128_add_frames_double False example_resampler
          (example_state\<lparr>mode := mode example_state OR EBUR128_MODE_HISTOGRAM\<rparr>)
          example_frames 3))) = []
 \<and> histogram
       (d (snd (ebur128_add_frames_double False example_resampler
          (example_state\<lparr>mode := mode example_state OR EBUR128_MODE_HISTOGRAM\<rparr>)
          example_frames 3))) ! 693 = 2
 \<and> histogram_lra
       (d (snd (ebur128_add_frames_double False example_resampler
          (example_state\<lparr>mode := mode example_state OR EBUR128_MODE_HISTOGRAM\<rparr>)
          example_frames 3))) ! 693 = 2
 \<and> ebur128_loudness_global
       (snd (ebur128_add_frames_double True example_resampler example_state example_frames 3))
       Minus_HUGE_VAL = (EBUR128_SUCCESS, Dbl (- 0.691))
 \<and> fst (ebur128_loudness_global
       (snd (ebur128_add_frames_double False example_resampler
          (example_state\<lparr>mode := mode example_state OR EBUR128_MODE_HISTOGRAM\<rparr>)
          example_frames 3)) Minus_HUGE_VAL) = EBUR128_SUCCESS"
proof -
  define m0 where "m0 = EBUR128_MODE_I OR EBUR128_MODE_LRA"
  define si where "si = the (ebur128_init True example_design 2 20 m0)"
  define s0 where "s0 = example_state"
  define t0 where "t0 = example_state\<lparr>mode := mode example_state OR EBUR128_MODE_HISTOGRAM\<rparr>"
  define s3 where
    "s3 = snd (ebur128_add_frames_double True example_resampler s0 example_frames 3)"
  have nh: "\<not> mode_set m0 EBUR128_MODE_HISTOGRAM"
    by (simp add: m0_def mode_set_def mode_values)
  have nhe: "\<not> mode_set (mode example_state) EBUR128_MODE_HISTOGRAM"
    by (simp add: example_state_def mode_set_def mode_values)
  have due: "due_400 (mode example_state) 2 20 (d example_state) = [1]"
    "due_3000 (mode example_state) 2 20 (d example_state) = [1]"
    by (simp_all add: due_400_def due_3000_def example_state_def window_mean_square_def
        mode_set_def mode_values upt_unfold nth_append)
  have empty: "block_list_400 (d example_state) = []" "block_list_3000 (d example_state) = []"
    by (simp_all add: example_state_def)
  from histogram_is_bare_bit [where m = "mode example_state" and ch = 2 and sr = 20
      and i = "d example_state"] nhe
  have "emit_block True (mode example_state) 2 20 (d example_state)
      = (EBUR128_SUCCESS,
         (d example_state)
           \<lparr>block_list_400 := block_list_400 (d example_state)
                @ due_400 (mode example_state) 2 20 (d example_state),
            block_list_3000 := block_list_3000 (d example_state)
                @ due_3000 (mode example_state) 2 20 (d example_state)\<rparr>)"
    by blast
  then have w0: "emit_block True (mode example_state) 2 20 (d example_state)
      = (EBUR128_SUCCESS,
         (d example_state)\<lparr>block_list_400 := [1], block_list_3000 := [1]\<rparr>)"
    by (simp only: due empty append_Nil)
  have some: "ebur128_init True example_design 2 20 m0 = Some si"
    by (simp add: si_def ebur128_init_def)
  from histogram_is_bare_bit [where m = m0 and design = example_design and ch = 2
      and sr = 20 and s_init = si] nh some
  obtain ti where ti: "ebur128_init True example_design 2 20 (m0 OR EBUR128_MODE_HISTOGRAM)
      = Some ti" and ri: "only_storage_differs si ti"
    by blast
  have w1: "only_storage_differs si
      (the (ebur128_init True example_design 2 20 (m0 OR EBUR128_MODE_HISTOGRAM)))"
    using ti ri by simp
  have rel0: "only_storage_differs s0 t0"
    by (simp add: only_storage_differs_def s0_def t0_def example_state_def mode_set_def
        mode_values without_storage_def)
  have run: "fst (ebur128_add_frames_double True example_resampler s0 example_frames 3)
      = EBUR128_SUCCESS" "block_list_400 (d s3) = [1, 1]" "block_list_3000 (d s3) = [1, 1]"
    using example_run by (simp_all add: s0_def s3_def)
  then have run': "ebur128_add_frames_double True example_resampler s0 example_frames 3
      = (EBUR128_SUCCESS, s3)"
    by (simp add: s3_def prod_eq_iff)
  from histogram_is_bare_bit [where s = s0 and t = t0 and mem = True
      and os = example_resampler and src = example_frames and n = 3 and s' = s3
      and mem' = False] rel0 run'
  obtain t3 where t3: "ebur128_add_frames_double False example_resampler t0 example_frames 3
      = (EBUR128_SUCCESS, t3)" and r3: "only_storage_differs s3 t3"
    by blast
  have "mode s3 = mode s0"
    using add_frames_fields [OF run'] by simp
  then have mi: "mode_set (mode s3) EBUR128_MODE_I"
    by (simp add: s0_def example_state_def mode_set_def mode_values)
  from histogram_is_bare_bit [where s = s3 and t = t3 and out = Minus_HUGE_VAL] r3 mi
  have gs: "ebur128_loudness_global s3 Minus_HUGE_VAL
      = (EBUR128_SUCCESS, gated_loudness (block_list_400 (d s3)))"
    and gt: "fst (ebur128_loudness_global t3 Minus_HUGE_VAL)
      = fst (ebur128_loudness_global s3 Minus_HUGE_VAL)"
    by blast+
  have "block_list_400 (d t3) = []"
    "histogram (d t3) = fold histogram_bump (block_list_400 (d s3)) (replicate 1000 0)"
    "histogram_lra (d t3) = fold histogram_bump (block_list_3000 (d s3)) (replicate 1000 0)"
    using r3 unfolding only_storage_differs_def by blast+
  then have bins: "block_list_400 (d t3) = []" "histogram (d t3) ! 693 = 2"
    "histogram_lra (d t3) ! 693 = 2"
    by (simp_all only: run example_bins)
  have "snd (ebur128_add_frames_double False example_resampler t0 example_frames 3) = t3"
    "fst (ebur128_add_frames_double False example_resampler t0 example_frames 3)
      = EBUR128_SUCCESS"
    using t3 by simp_all
  with w0 w1 run r3 bins gs gt show ?thesis
    unfolding s3_def t0_def s0_def m0_def si_def
    by (simp add: example_loudness)
qed

end
